theory Spec2Isabelle
  imports Complex_Main
begin

section \<open>Values of the language\<close>

text \<open>
  A TypeScript \<open>number\<close> is an IEEE double: a finite value, one of the two infinities,
  or NaN. Every finite double is a real number, so the finite values are embedded in
  \<open>real\<close>; the two zeros are identified (they compare equal and print alike, and the
  sources only compare amounts with zero and print them). A comparison with NaN on
  either side is false.
\<close>

datatype number = Fin real | PosInf | NegInf | NaN

fun js_lt :: "number \<Rightarrow> number \<Rightarrow> bool" where
  "js_lt NaN b = False"
| "js_lt a NaN = False"
| "js_lt (Fin a) (Fin b) = (a < b)"
| "js_lt (Fin a) PosInf = True"
| "js_lt (Fin a) NegInf = False"
| "js_lt PosInf b = False"
| "js_lt NegInf NegInf = False"
| "js_lt NegInf b = True"

fun js_le :: "number \<Rightarrow> number \<Rightarrow> bool" where
  "js_le NaN b = False"
| "js_le a NaN = False"
| "js_le (Fin a) (Fin b) = (a \<le> b)"
| "js_le (Fin a) PosInf = True"
| "js_le (Fin a) NegInf = False"
| "js_le PosInf PosInf = True"
| "js_le PosInf b = False"
| "js_le NegInf b = True"

text \<open>Truthiness of a number, as \<open>amount || 0\<close> tests it: zero and NaN are falsy.\<close>

fun truthy_number :: "number \<Rightarrow> bool" where
  "truthy_number (Fin a) = (a \<noteq> 0)"
| "truthy_number NaN = False"
| "truthy_number PosInf = True"
| "truthy_number NegInf = True"

text \<open>
  Every \<open>throw new Error(msg)\<close> of the sources is a value \<open>Error msg\<close>. Messages are
  lists of code units; the accented letters of the Portuguese messages are written by
  their code (a-acute is 0xE1, o-acute is 0xF3).
\<close>

datatype error = Error string

definition msg_valor_invalido :: string where
  "msg_valor_invalido = ''Valor inv'' @ [CHR 0xE1] @ ''lido''"

definition msg_id_obrigatorio :: string where
  "msg_id_obrigatorio = ''ID obrigat'' @ [CHR 0xF3] @ ''rio''"

definition msg_amount_greater_than_zero :: string where
  "msg_amount_greater_than_zero = ''Amount must be greater than zero''"

definition msg_order_id_required :: string where
  "msg_order_id_required = ''Order ID is required''"

definition msg_valor_invalido_pagamento :: string where
  "msg_valor_invalido_pagamento = msg_valor_invalido @ '' para pagamento''"

definition msg_acesso_negado :: string where
  "msg_acesso_negado =
     ''Acesso negado: apenas administradores podem processar pagamentos''"

section \<open>The Order models\<close>

text \<open>
  The three \<open>models/order.ts\<close> classes have the fields \<open>id\<close>, \<open>amount\<close> and
  \<open>status\<close> (in the observer example the status is a private field behind a getter
  and a setter). A constructor takes the identifier (\<open>None\<close> when the argument is
  absent, which \<open>!id\<close> treats like the empty string), the amount and the optional
  status argument, whose default is \<open>pending\<close>. A constructor that throws produces
  no order.
\<close>

record order =
  order_id :: string
  amount :: number
  status :: string

definition default_status :: "string option \<Rightarrow> string" where
  "default_status st = (case st of None \<Rightarrow> ''pending'' | Some s \<Rightarrow> s)"

text \<open>\<open>models/order.ts\<close> of the facade and template-method examples.\<close>

definition Order_ctor :: "string option \<Rightarrow> number \<Rightarrow> string option \<Rightarrow> error + order" where
  "Order_ctor ident amt st =
     (if js_lt amt (Fin 0) then Inl (Error msg_valor_invalido)
      else case ident of
             None \<Rightarrow> Inl (Error msg_id_obrigatorio)
           | Some i \<Rightarrow>
               if i = [] then Inl (Error msg_id_obrigatorio)
               else Inr \<lparr>order_id = i, amount = amt, status = default_status st\<rparr>)"

definition complete :: "order \<Rightarrow> order" where
  "complete ord = ord\<lparr>status := ''completed''\<rparr>"

text \<open>\<open>10-observer-pattern/src/models/order.ts\<close>.\<close>

definition Order_observer_ctor ::
  "string option \<Rightarrow> number \<Rightarrow> string option \<Rightarrow> error + order" where
  "Order_observer_ctor ident amt st =
     (if js_lt amt (Fin 0) then Inl (Error msg_valor_invalido)
      else case ident of
             None \<Rightarrow> Inl (Error msg_id_obrigatorio)
           | Some i \<Rightarrow>
               if i = [] then Inl (Error msg_id_obrigatorio)
               else Inr \<lparr>order_id = i, amount = amt, status = default_status st\<rparr>)"

text \<open>\<open>6-proxy-pattern/src/models/order.ts\<close>: the amount guard is \<open>amount <= 0\<close>.\<close>

definition Order_proxy_ctor ::
  "string option \<Rightarrow> number \<Rightarrow> string option \<Rightarrow> error + order" where
  "Order_proxy_ctor ident amt st =
     (if js_le amt (Fin 0) then Inl (Error msg_amount_greater_than_zero)
      else case ident of
             None \<Rightarrow> Inl (Error msg_order_id_required)
           | Some i \<Rightarrow>
               if i = [] then Inl (Error msg_order_id_required)
               else Inr \<lparr>order_id = i, amount = amt, status = default_status st\<rparr>)"

definition complete_proxy :: "order \<Rightarrow> order" where
  "complete_proxy ord = ord\<lparr>status := ''completed''\<rparr>"

text \<open>
  \<open>5-single-responsability-principle/src/order.ts\<close>: the constructor takes
  \<open>{uuid, amount?}\<close>, validates nothing, and starts the order \<open>open\<close> with
  \<open>total = amount || 0\<close>.
\<close>

record order_srp =
  uuid :: string
  items :: "string list"
  total :: number
  status_srp :: string

definition Order_srp_ctor :: "string \<Rightarrow> number option \<Rightarrow> error + order_srp" where
  "Order_srp_ctor u amt =
     Inr \<lparr>uuid = u, items = [],
          total = (case amt of None \<Rightarrow> Fin 0
                   | Some a \<Rightarrow> if truthy_number a then a else Fin 0),
          status_srp = ''open''\<rparr>"

definition closeOrder :: "order_srp \<Rightarrow> order_srp" where
  "closeOrder ord = ord\<lparr>status_srp := ''closed''\<rparr>"

section \<open>The world outside the objects\<close>

text \<open>
  \<open>console.log\<close> appends a line to the console. Everything else a collaborator may
  read or change (its own fields, a clock) is the component \<open>ext\<close>. Printing a number
  inside a template literal is the language's number-to-string conversion; it is the
  parameter \<open>fmt\<close> of every function that prints one.
\<close>

record 'x world =
  console :: "string list"
  ext :: 'x

definition console_log :: "string \<Rightarrow> 'x world \<Rightarrow> 'x world" where
  "console_log line w = w\<lparr>console := console w @ [line]\<rparr>"

text \<open>
  A spy in the manner of \<open>jest.spyOn\<close>: the wrapped call runs unchanged on the part of
  the world it can see, and the call is appended to a log it cannot see.
\<close>

definition with_spy ::
  "('x world \<Rightarrow> 'r \<times> 'x world) \<Rightarrow> 'c \<Rightarrow> ('x \<times> 'c list) world
     \<Rightarrow> 'r \<times> ('x \<times> 'c list) world" where
  "with_spy f c w =
     (case f \<lparr>console = console w, ext = fst (ext w)\<rparr> of
        (r, w') \<Rightarrow> (r, \<lparr>console = console w', ext = (ext w', snd (ext w) @ [c])\<rparr>))"

definition spied_calls :: "('x \<times> 'c list) world \<Rightarrow> 'c list" where
  "spied_calls w = snd (ext w)"

section \<open>Facade: OrderFacade and its services\<close>

record result =
  transactionId :: string
  result_status :: string

type_synonym 'x service = "string \<Rightarrow> number \<Rightarrow> 'x world \<Rightarrow> (error + string) \<times> 'x world"

definition PaymentService_process :: "(number \<Rightarrow> string) \<Rightarrow> 'x service" where
  "PaymentService_process fmt orderId amt w =
     (Inr ''payment-processed'',
      console_log (''Processing payment for order ID: '' @ orderId
                     @ '' with value: '' @ fmt amt) w)"

definition InventoryService_process :: "(number \<Rightarrow> string) \<Rightarrow> 'x service" where
  "InventoryService_process fmt orderId amt w =
     (Inr ''inventory-updated'',
      console_log (''Processing inventory for order ID: '' @ orderId
                     @ '' with value: '' @ fmt amt) w)"

definition ShippingService_process :: "(number \<Rightarrow> string) \<Rightarrow> 'x service" where
  "ShippingService_process fmt orderId amt w =
     (Inr ''shipping-processed'',
      console_log (''Processing shipping for order ID: '' @ orderId
                     @ '' with value: '' @ fmt amt) w)"

record 'x OrderFacade =
  shippingService :: "'x service"
  paymentService :: "'x service"
  inventoryService :: "'x service"

definition OrderFacade_ctor :: "'x service \<Rightarrow> 'x service \<Rightarrow> 'x service \<Rightarrow> 'x OrderFacade" where
  "OrderFacade_ctor shipping payment inventory =
     \<lparr>shippingService = shipping, paymentService = payment, inventoryService = inventory\<rparr>"

text \<open>
  \<open>processOrder\<close> returns its result or the error a service threw, the order as it
  is afterwards, and the world.
\<close>

definition processOrder ::
  "'x OrderFacade \<Rightarrow> order \<Rightarrow> 'x world \<Rightarrow> (error + result) \<times> order \<times> 'x world" where
  "processOrder f ord w =
     (case paymentService f (order_id ord) (amount ord) w of
        (Inl e, w1) \<Rightarrow> (Inl e, ord, w1)
      | (Inr tid, w1) \<Rightarrow>
          (case inventoryService f (order_id ord) (amount ord) w1 of
             (Inl e, w2) \<Rightarrow> (Inl e, ord, w2)
           | (Inr _, w2) \<Rightarrow>
               (case shippingService f (order_id ord) (amount ord) w2 of
                  (Inl e, w3) \<Rightarrow> (Inl e, ord, w3)
                | (Inr _, w3) \<Rightarrow>
                    (Inr \<lparr>transactionId = tid, result_status = ''completed''\<rparr>,
                     complete ord, w3))))"

section \<open>Proxy: PaymentProxy\<close>

type_synonym 'x gateway = "number \<Rightarrow> string \<Rightarrow> 'x world \<Rightarrow> (error + result) \<times> 'x world"

definition RealOrderProcessorPayment_processPayment ::
  "(number \<Rightarrow> string) \<Rightarrow> 'x gateway" where
  "RealOrderProcessorPayment_processPayment fmt amt orderId w =
     (Inr \<lparr>transactionId = ''txn_'' @ orderId, result_status = ''success''\<rparr>,
      console_log (''Processing payment of '' @ fmt amt @ '' for order '' @ orderId) w)"

record 'x PaymentProxy =
  realProcessor :: "'x gateway"
  userRole :: string
  cache :: "string \<rightharpoonup> result"

definition PaymentProxy_ctor :: "'x gateway \<Rightarrow> string \<Rightarrow> 'x PaymentProxy" where
  "PaymentProxy_ctor rp role = \<lparr>realProcessor = rp, userRole = role, cache = Map.empty\<rparr>"

definition cacheKey :: "(number \<Rightarrow> string) \<Rightarrow> string \<Rightarrow> number \<Rightarrow> string" where
  "cacheKey fmt orderId amt = orderId @ ''_'' @ fmt amt"

definition processPayment ::
  "(number \<Rightarrow> string) \<Rightarrow> 'x PaymentProxy \<Rightarrow> number \<Rightarrow> string \<Rightarrow> 'x world
     \<Rightarrow> (error + result) \<times> 'x PaymentProxy \<times> 'x world" where
  "processPayment fmt p amt orderId w =
     (if userRole p \<noteq> ''admin'' then (Inl (Error msg_acesso_negado), p, w)
      else
        (case cache p (cacheKey fmt orderId amt) of
           Some r \<Rightarrow>
             (Inr r, p,
              console_log (''Retornando resultado do cache para pedido '' @ orderId) w)
         | None \<Rightarrow>
             (case realProcessor p amt orderId w of
                (Inl e, w1) \<Rightarrow> (Inl e, p, w1)
              | (Inr r, w1) \<Rightarrow>
                  (Inr r, p\<lparr>cache := (cache p)(cacheKey fmt orderId amt \<mapsto> r)\<rparr>, w1))))"

text \<open>
  A caller making one call after another, each with its own arguments, and going on
  after a call that threw.
\<close>

fun processPayment_calls ::
  "(number \<Rightarrow> string) \<Rightarrow> 'x PaymentProxy \<Rightarrow> (number \<times> string) list \<Rightarrow> 'x world
     \<Rightarrow> (error + result) list \<times> 'x PaymentProxy \<times> 'x world" where
  "processPayment_calls fmt p [] w = ([], p, w)"
| "processPayment_calls fmt p (c # cs) w =
     (case processPayment fmt p (fst c) (snd c) w of
        (r, p1, w1) \<Rightarrow>
          (case processPayment_calls fmt p1 cs w1 of
             (rs, p2, w2) \<Rightarrow> (r # rs, p2, w2)))"

definition spyOn_gateway :: "'x gateway \<Rightarrow> ('x \<times> (number \<times> string) list) gateway" where
  "spyOn_gateway gw amt orderId = with_spy (gw amt orderId) (amt, orderId)"

section \<open>Observer: OrderSubject\<close>

text \<open>
  Observers are objects compared by identity; \<open>'o\<close> is the type of their identities.
  The subject keeps them in an array and holds one order.
\<close>

record 'o OrderSubject =
  observers :: "'o list"
  subject_order :: order


definition addObserver :: "'o OrderSubject \<Rightarrow> 'o \<Rightarrow> 'o OrderSubject" where
  "addObserver s ob = s\<lparr>observers := observers s @ [ob]\<rparr>"

text \<open>\<open>Array.prototype.indexOf\<close>: the first index holding the value, or -1.\<close>

fun indexOf :: "'a list \<Rightarrow> 'a \<Rightarrow> int" where
  "indexOf [] x = -1"
| "indexOf (y # ys) x =
     (if y = x then 0 else (let i = indexOf ys x in if i = -1 then -1 else i + 1))"

text \<open>\<open>splice(index, 1)\<close> for an index inside the array.\<close>

definition splice1 :: "'a list \<Rightarrow> nat \<Rightarrow> 'a list" where
  "splice1 xs i = take i xs @ drop (Suc i) xs"

definition removeObserver :: "'o OrderSubject \<Rightarrow> 'o \<Rightarrow> 'o OrderSubject" where
  "removeObserver s ob =
     (let index = indexOf (observers s) ob
      in if index \<noteq> -1 then s\<lparr>observers := splice1 (observers s) (nat index)\<rparr> else s)"

text \<open>
  \<open>upd\<close> gives each observer's \<open>update\<close> method. An observer may hold the subject or
  its order, so a call of \<open>update\<close> runs on the subject as well as on the world and
  may leave either changed: it may add or remove observers and write the status.
\<close>

type_synonym ('o, 'x) update =
  "'o \<Rightarrow> string \<Rightarrow> 'o OrderSubject \<times> 'x world
     \<Rightarrow> (error + unit) \<times> 'o OrderSubject \<times> 'x world"

definition EmailNotifier_update :: "string \<Rightarrow> 'x world \<Rightarrow> (error + unit) \<times> 'x world" where
  "EmailNotifier_update st w =
     (Inr (), console_log (''Email notification sent: Order status changed to '' @ st) w)"

definition SmsNotifier_update :: "string \<Rightarrow> 'x world \<Rightarrow> (error + unit) \<times> 'x world" where
  "SmsNotifier_update st w =
     (Inr (), console_log (''Enviando SMS: Status do pedido atualizado para '' @ st) w)"

text \<open>
  Observer objects, each told from the other objects of its class by a number: the
  two notifier classes of the example, which only print, and two observers a client
  of the subject can write against the same interface, one whose \<open>update\<close> takes
  itself off the subject and one whose \<open>update\<close> throws.
\<close>

datatype observer = EmailNotifier nat | SmsNotifier nat | SelfRemoving nat | Failing nat

fun observer_update :: "(observer, 'x) update" where
  "observer_update (EmailNotifier n) st (s, w) =
     (case EmailNotifier_update st w of (r, w1) \<Rightarrow> (r, s, w1))"
| "observer_update (SmsNotifier n) st (s, w) =
     (case SmsNotifier_update st w of (r, w1) \<Rightarrow> (r, s, w1))"
| "observer_update (SelfRemoving n) st (s, w) =
     (Inr (), removeObserver s (SelfRemoving n), w)"
| "observer_update (Failing n) st (s, w) = (Inl (Error ''update failed''), s, w)"

text \<open>
  The \<open>for ... of\<close> loop of \<open>notify\<close>. The array iterator keeps an index into
  \<open>this.observers\<close> and looks at the array as it is at each turn, and each turn
  reads \<open>this.order.status\<close> anew. A throwing \<open>update\<close> ends the loop. Observers
  that keep adding observers keep it running for ever, which is the value \<open>None\<close>.
\<close>

partial_function (option) notify_loop ::
  "('o, 'x) update \<Rightarrow> nat \<Rightarrow> 'o OrderSubject \<times> 'x world
     \<Rightarrow> ((error + unit) \<times> 'o OrderSubject \<times> 'x world) option" where
  "notify_loop upd i \<sigma> =
     (if i < length (observers (fst \<sigma>)) then
        (case upd (observers (fst \<sigma>) ! i) (status (subject_order (fst \<sigma>))) \<sigma> of
           (Inl e, \<sigma>1) \<Rightarrow> Some (Inl e, \<sigma>1)
         | (Inr u, \<sigma>1) \<Rightarrow> notify_loop upd (Suc i) \<sigma>1)
      else Some (Inr (), \<sigma>))"

definition notify ::
  "('o, 'x) update \<Rightarrow> 'o OrderSubject \<Rightarrow> 'x world
     \<Rightarrow> ((error + unit) \<times> 'o OrderSubject \<times> 'x world) option" where
  "notify upd s w = notify_loop upd 0 (s, w)"

definition setStatus ::
  "('o, 'x) update \<Rightarrow> 'o OrderSubject \<Rightarrow> string \<Rightarrow> 'x world
     \<Rightarrow> ((error + unit) \<times> 'o OrderSubject \<times> 'x world) option" where
  "setStatus upd s st w =
     notify upd (s\<lparr>subject_order := (subject_order s)\<lparr>status := st\<rparr>\<rparr>) w"


text \<open>A spy on every observer's \<open>update\<close>, recording the observer and the status.\<close>

definition spyOn_update :: "('o, 'x) update \<Rightarrow> ('o, 'x \<times> ('o \<times> string) list) update" where
  "spyOn_update upd ob st \<sigma> =
     (case upd ob st (fst \<sigma>, \<lparr>console = console (snd \<sigma>), ext = fst (ext (snd \<sigma>))\<rparr>) of
        (r, s1, w1) \<Rightarrow>
          (r, s1, \<lparr>console = console w1,
                   ext = (ext w1, snd (ext (snd \<sigma>)) @ [(ob, st)])\<rparr>))"

text \<open>
  The notification as the specification words it: the observers of a given list are
  invoked one after the other, in the order of the list; \<open>notify_seq\<close> reads the
  status of the order at each turn, \<open>notify_spec\<close> passes the given status to each;
  in both, the first \<open>update\<close> that throws ends the notification with its error.
\<close>

fun notify_seq ::
  "('o, 'x) update \<Rightarrow> 'o list \<Rightarrow> 'o OrderSubject \<times> 'x world
     \<Rightarrow> (error + unit) \<times> 'o OrderSubject \<times> 'x world" where
  "notify_seq upd [] \<sigma> = (Inr (), \<sigma>)"
| "notify_seq upd (ob # obs) \<sigma> =
     (case upd ob (status (subject_order (fst \<sigma>))) \<sigma> of
        (Inl e, \<sigma>1) \<Rightarrow> (Inl e, \<sigma>1)
      | (Inr u, \<sigma>1) \<Rightarrow> notify_seq upd obs \<sigma>1)"

fun notify_spec ::
  "('o, 'x) update \<Rightarrow> string \<Rightarrow> 'o list \<Rightarrow> 'o OrderSubject \<times> 'x world
     \<Rightarrow> (error + unit) \<times> 'o OrderSubject \<times> 'x world" where
  "notify_spec upd st [] \<sigma> = (Inr (), \<sigma>)"
| "notify_spec upd st (ob # obs) \<sigma> =
     (case upd ob st \<sigma> of
        (Inl e, \<sigma>1) \<Rightarrow> (Inl e, \<sigma>1)
      | (Inr u, \<sigma>1) \<Rightarrow> notify_spec upd st obs \<sigma>1)"

section \<open>Template method: PaymentTemplate\<close>

record details =
  details_amount :: number
  details_method :: string

text \<open>The two abstract steps, as a subclass supplies them.\<close>

record 'x PaymentTemplate =
  preparePayment :: "number \<Rightarrow> 'x world \<Rightarrow> (error + details) \<times> 'x world"
  executePayment :: "details \<Rightarrow> 'x world \<Rightarrow> (error + result) \<times> 'x world"

definition validateOrder :: "order \<Rightarrow> error + unit" where
  "validateOrder ord =
     (if js_le (amount ord) (Fin 0) then Inl (Error msg_valor_invalido_pagamento)
      else Inr ())"

definition updateOrderStatus :: "order \<Rightarrow> order" where
  "updateOrderStatus ord = complete ord"

definition template_processPayment ::
  "'x PaymentTemplate \<Rightarrow> order \<Rightarrow> 'x world \<Rightarrow> (error + result) \<times> order \<times> 'x world" where
  "template_processPayment t ord w =
     (case validateOrder ord of
        Inl e \<Rightarrow> (Inl e, ord, w)
      | Inr _ \<Rightarrow>
          (case preparePayment t (amount ord) w of
             (Inl e, w1) \<Rightarrow> (Inl e, ord, w1)
           | (Inr paymentDetails, w1) \<Rightarrow>
               (case executePayment t paymentDetails w1 of
                  (Inl e, w2) \<Rightarrow> (Inl e, ord, w2)
                | (Inr transaction, w2) \<Rightarrow> (Inr transaction, updateOrderStatus ord, w2))))"

text \<open>
  \<open>CreditPayment\<close>; \<open>Date.now()\<close> reads the clock, which is the \<open>ext\<close> component of
  the world here.
\<close>

definition CreditPayment :: "(number \<Rightarrow> string) \<Rightarrow> nat PaymentTemplate" where
  "CreditPayment fmt =
     \<lparr>preparePayment = (\<lambda>amt w. (Inr \<lparr>details_amount = amt, details_method = ''credit''\<rparr>, w)),
      executePayment = (\<lambda>d w.
        (Inr \<lparr>transactionId = ''txn-'' @ fmt (Fin (real (ext w))),
              result_status = ''success''\<rparr>,
         console_log (''Processing credit payment of '' @ fmt (details_amount d)
                        @ '' using '' @ details_method d) w))\<rparr>"

section \<open>Singleton: ConfigManager and ConfigManagerInjected\<close>

text \<open>
  Configuration records are objects held by reference, so they live in a store:
  \<open>cells\<close> maps a reference to the record it points to and \<open>next_ref\<close> is the first
  reference not yet handed out. An object literal or a spread copy allocates.
\<close>

record config =
  apiKey :: string
  timeout :: number

record store =
  cells :: "nat \<Rightarrow> config"
  next_ref :: nat

definition alloc :: "config \<Rightarrow> store \<Rightarrow> nat \<times> store" where
  "alloc v h = (next_ref h, h\<lparr>cells := (cells h)(next_ref h := v), next_ref := Suc (next_ref h)\<rparr>)"

text \<open>An assignment to fields of the record behind a reference, by whoever holds it.\<close>

definition assign :: "nat \<Rightarrow> (config \<Rightarrow> config) \<Rightarrow> store \<Rightarrow> store" where
  "assign r f h = h\<lparr>cells := (cells h)(r := f (cells h r))\<rparr>"

definition write_apiKey :: "nat \<Rightarrow> string \<Rightarrow> store \<Rightarrow> store" where
  "write_apiKey r k h = assign r (\<lambda>c. c\<lparr>apiKey := k\<rparr>) h"

definition write_timeout :: "nat \<Rightarrow> number \<Rightarrow> store \<Rightarrow> store" where
  "write_timeout r t h = assign r (\<lambda>c. c\<lparr>timeout := t\<rparr>) h"

record ConfigManager =
  config_ref :: nat

text \<open>
  The private constructor: the field initialiser allocates one record, the body
  replaces it by another.
\<close>

definition ConfigManager_ctor :: "store \<Rightarrow> ConfigManager \<times> store" where
  "ConfigManager_ctor h =
     (case alloc \<lparr>apiKey = [], timeout = Fin 0\<rparr> h of
        (r0, h0) \<Rightarrow>
          (case alloc \<lparr>apiKey = ''default-key'', timeout = Fin 3000\<rparr> h0 of
             (r1, h1) \<Rightarrow> (\<lparr>config_ref = r1\<rparr>, h1)))"

record statics =
  objs :: store
  instance_slot :: "ConfigManager option"

definition getInstance :: "statics \<Rightarrow> ConfigManager \<times> statics" where
  "getInstance s =
     (case instance_slot s of
        None \<Rightarrow>
          (case ConfigManager_ctor (objs s) of
             (m, h) \<Rightarrow> (m, s\<lparr>objs := h, instance_slot := Some m\<rparr>))
      | Some m \<Rightarrow> (m, s))"

definition getConfig :: "ConfigManager \<Rightarrow> store \<Rightarrow> nat \<times> store" where
  "getConfig m h = alloc (cells h (config_ref m)) h"

definition setConfig :: "ConfigManager \<Rightarrow> string \<Rightarrow> number \<Rightarrow> store \<Rightarrow> store" where
  "setConfig m k t h =
     write_timeout (config_ref m) t (write_apiKey (config_ref m) k h)"

record ConfigManagerInjected =
  injected_config_ref :: nat

text \<open>
  \<open>this.config = config || {...}\<close>: the argument itself is stored when it is
  present, a new default record otherwise.
\<close>

definition ConfigManagerInjected_ctor ::
  "nat option \<Rightarrow> store \<Rightarrow> ConfigManagerInjected \<times> store" where
  "ConfigManagerInjected_ctor cfg h =
     (case cfg of
        Some r \<Rightarrow> (\<lparr>injected_config_ref = r\<rparr>, h)
      | None \<Rightarrow>
          (case alloc \<lparr>apiKey = ''default-key'', timeout = Fin 0\<rparr> h of
             (r, h1) \<Rightarrow> (\<lparr>injected_config_ref = r\<rparr>, h1)))"

definition getConfig_injected :: "ConfigManagerInjected \<Rightarrow> store \<Rightarrow> nat \<times> store" where
  "getConfig_injected m h = alloc (cells h (injected_config_ref m)) h"

definition setConfig_injected ::
  "ConfigManagerInjected \<Rightarrow> string \<Rightarrow> number \<Rightarrow> store \<Rightarrow> store" where
  "setConfig_injected m k t h =
     write_timeout (injected_config_ref m) t (write_apiKey (injected_config_ref m) k h)"

definition empty_store :: store where
  "empty_store = \<lparr>cells = (\<lambda>_. \<lparr>apiKey = [], timeout = Fin 0\<rparr>), next_ref = 0\<rparr>"

section \<open>Order construction and completion\<close>

lemma js_lt_zero_le: "js_lt (Fin 0) a \<Longrightarrow> js_le (Fin 0) a"
  by (cases a) auto

lemma js_le_zero_not_lt: "js_le (Fin 0) a \<Longrightarrow> \<not> js_lt a (Fin 0)"
  by (cases a) auto

lemma js_lt_zero_not_le: "js_lt (Fin 0) a \<Longrightarrow> \<not> js_le a (Fin 0)"
  by (cases a) auto

lemma js_lt_le_zero: "js_lt a (Fin 0) \<Longrightarrow> js_le a (Fin 0)"
  by (cases a) auto

lemma truthy_or_zero:
  "js_le (Fin 0) a \<Longrightarrow> (if truthy_number a then a else Fin 0) = a"
  by (cases a) auto

text \<open>
  C2 (as amended). For every non-empty identifier and every non-negative amount,
  construction with no status argument succeeds in the facade/template, observer and
  single-responsibility Order classes, with initial status \<open>pending\<close> (\<open>open\<close> in the
  single-responsibility class); the proxy example's Order class does so for every
  amount greater than zero.
\<close>

theorem Order_ctor_accepts:
  assumes "ident \<noteq> []" and "js_le (Fin 0) amt"
  shows "Order_ctor (Some ident) amt None
           = Inr \<lparr>order_id = ident, amount = amt, status = ''pending''\<rparr>
       \<and> Order_observer_ctor (Some ident) amt None
           = Inr \<lparr>order_id = ident, amount = amt, status = ''pending''\<rparr>
       \<and> Order_srp_ctor ident (Some amt)
           = Inr \<lparr>uuid = ident, items = [], total = amt, status_srp = ''open''\<rparr>
       \<and> (js_lt (Fin 0) amt \<longrightarrow>
            Order_proxy_ctor (Some ident) amt None
              = Inr \<lparr>order_id = ident, amount = amt, status = ''pending''\<rparr>)"
proof -
  from assms(2) have nonneg: "\<not> js_lt amt (Fin 0)"
    by (rule js_le_zero_not_lt)
  from assms(2) have tot: "(if truthy_number amt then amt else Fin 0) = amt"
    by (rule truthy_or_zero)
  have a: "Order_ctor (Some ident) amt None
             = Inr \<lparr>order_id = ident, amount = amt, status = ''pending''\<rparr>"
    using assms(1) nonneg by (simp add: Order_ctor_def default_status_def)
  have b: "Order_observer_ctor (Some ident) amt None
             = Inr \<lparr>order_id = ident, amount = amt, status = ''pending''\<rparr>"
    using assms(1) nonneg by (simp add: Order_observer_ctor_def default_status_def)
  have c: "Order_srp_ctor ident (Some amt)
             = Inr \<lparr>uuid = ident, items = [], total = amt, status_srp = ''open''\<rparr>"
    using tot by (simp add: Order_srp_ctor_def)
  have d: "js_lt (Fin 0) amt \<longrightarrow>
             Order_proxy_ctor (Some ident) amt None
               = Inr \<lparr>order_id = ident, amount = amt, status = ''pending''\<rparr>"
    using assms(1) js_lt_zero_not_le [of amt]
    by (simp add: Order_proxy_ctor_def default_status_def)
  from a b c d show ?thesis by blast
qed

theorem Order_ctor_accepts_witness:
  "Order_ctor (Some ''order123'') (Fin 100) None
     = Inr \<lparr>order_id = ''order123'', amount = Fin 100, status = ''pending''\<rparr>
   \<and> Order_observer_ctor (Some ''order123'') (Fin 100) None
     = Inr \<lparr>order_id = ''order123'', amount = Fin 100, status = ''pending''\<rparr>
   \<and> Order_srp_ctor ''order123'' (Some (Fin 100))
     = Inr \<lparr>uuid = ''order123'', items = [], total = Fin 100, status_srp = ''open''\<rparr>
   \<and> Order_proxy_ctor (Some ''order123'') (Fin 100) None
     = Inr \<lparr>order_id = ''order123'', amount = Fin 100, status = ''pending''\<rparr>
   \<and> Order_ctor (Some ''order123'') (Fin 0) None
     = Inr \<lparr>order_id = ''order123'', amount = Fin 0, status = ''pending''\<rparr>"
  using Order_ctor_accepts [of "''order123''" "Fin 100"]
        Order_ctor_accepts [of "''order123''" "Fin 0"]
  by simp

text \<open>
  C2 as stated fails in the proxy example: amount zero is non-negative, and the
  constructor of \<open>6-proxy-pattern/src/models/order.ts\<close> throws.
\<close>

theorem Order_proxy_ctor_rejects_zero:
  "js_le (Fin 0) (Fin 0) \<and> ''order123'' \<noteq> []
   \<and> Order_proxy_ctor (Some ''order123'') (Fin 0) None
       = Inl (Error ''Amount must be greater than zero'')"
  by (simp add: Order_proxy_ctor_def msg_amount_greater_than_zero_def)

text \<open>
  C3 (as amended). In the facade/template, observer and proxy Order classes, every
  negative amount makes the constructor throw its invalid-amount error, whatever the
  identifier, and an empty or absent identifier with an amount that passes the amount
  guard makes it throw its required-identifier error; no order is produced in either
  case. The single-responsibility Order class validates nothing: its construction
  never fails.
\<close>

theorem Order_ctor_rejects:
  "(js_lt amt (Fin 0) \<longrightarrow>
      Order_ctor ident amt st = Inl (Error msg_valor_invalido)
    \<and> Order_observer_ctor ident amt st = Inl (Error msg_valor_invalido)
    \<and> Order_proxy_ctor ident amt st = Inl (Error msg_amount_greater_than_zero))
   \<and> ((ident = None \<or> ident = Some []) \<and> js_le (Fin 0) amt \<longrightarrow>
      Order_ctor ident amt st = Inl (Error msg_id_obrigatorio)
    \<and> Order_observer_ctor ident amt st = Inl (Error msg_id_obrigatorio))
   \<and> ((ident = None \<or> ident = Some []) \<and> js_lt (Fin 0) amt \<longrightarrow>
      Order_proxy_ctor ident amt st = Inl (Error msg_order_id_required))
   \<and> (\<exists>ord. Order_srp_ctor u a = Inr ord)"
proof (intro conjI impI)
  assume neg: "js_lt amt (Fin 0)"
  show "Order_ctor ident amt st = Inl (Error msg_valor_invalido)"
    using neg by (simp add: Order_ctor_def)
  show "Order_observer_ctor ident amt st = Inl (Error msg_valor_invalido)"
    using neg by (simp add: Order_observer_ctor_def)
  show "Order_proxy_ctor ident amt st = Inl (Error msg_amount_greater_than_zero)"
    using js_lt_le_zero [OF neg] by (simp add: Order_proxy_ctor_def)
next
  assume h: "(ident = None \<or> ident = Some []) \<and> js_le (Fin 0) amt"
  then have nonneg: "\<not> js_lt amt (Fin 0)"
    by (simp add: js_le_zero_not_lt)
  show "Order_ctor ident amt st = Inl (Error msg_id_obrigatorio)"
    using h nonneg by (auto simp: Order_ctor_def)
  show "Order_observer_ctor ident amt st = Inl (Error msg_id_obrigatorio)"
    using h nonneg by (auto simp: Order_observer_ctor_def)
next
  assume h: "(ident = None \<or> ident = Some []) \<and> js_lt (Fin 0) amt"
  then have pos: "\<not> js_le amt (Fin 0)"
    by (simp add: js_lt_zero_not_le)
  show "Order_proxy_ctor ident amt st = Inl (Error msg_order_id_required)"
    using h pos by (auto simp: Order_proxy_ctor_def)
next
  show "\<exists>ord. Order_srp_ctor u a = Inr ord"
    by (simp add: Order_srp_ctor_def)
qed

theorem Order_ctor_rejects_witness:
  "Order_ctor (Some ''invalid'') (Fin (- 1)) None = Inl (Error msg_valor_invalido)
   \<and> Order_observer_ctor (Some ''12345'') (Fin (- 100)) None = Inl (Error msg_valor_invalido)
   \<and> Order_proxy_ctor (Some ''12345'') (Fin (- 100)) None
       = Inl (Error msg_amount_greater_than_zero)
   \<and> Order_ctor (Some []) (Fin 100) None = Inl (Error msg_id_obrigatorio)
   \<and> Order_observer_ctor None (Fin 0) None = Inl (Error msg_id_obrigatorio)
   \<and> Order_proxy_ctor (Some []) (Fin 100) None = Inl (Error msg_order_id_required)"
  using Order_ctor_rejects [of "Fin (- 1)" "Some ''invalid''" None]
        Order_ctor_rejects [of "Fin (- 100)" "Some ''12345''" None]
        Order_ctor_rejects [of "Fin 100" "Some []" None]
        Order_ctor_rejects [of "Fin 0" None None]
  by simp

text \<open>
  C3 as stated fails in the single-responsibility example: its Order constructor
  accepts a negative amount together with an empty identifier.
\<close>

theorem Order_srp_ctor_accepts_invalid:
  "js_lt (Fin (- 5)) (Fin 0)
   \<and> Order_srp_ctor [] (Some (Fin (- 5)))
       = Inr \<lparr>uuid = [], items = [], total = Fin (- 5), status_srp = ''open''\<rparr>"
  by (simp add: Order_srp_ctor_def)

text \<open>
  C8. \<open>complete()\<close> is idempotent: a second call changes nothing, the status is
  \<open>completed\<close> after either, and the identifier and the amount are those of the
  order before. This holds for both classes that have the method.
\<close>

theorem complete_idempotent:
  "complete (complete ord) = complete ord
   \<and> status (complete ord) = ''completed''
   \<and> order_id (complete ord) = order_id ord
   \<and> amount (complete ord) = amount ord
   \<and> complete_proxy (complete_proxy ord) = complete_proxy ord
   \<and> status (complete_proxy ord) = ''completed''
   \<and> order_id (complete_proxy ord) = order_id ord
   \<and> amount (complete_proxy ord) = amount ord"
  by (simp add: complete_def complete_proxy_def)

section \<open>Facade\<close>

text \<open>
  C1. When the three services succeed, \<open>processOrder\<close> runs the payment service on
  the world it is given, the inventory service on the world the payment service left
  and the shipping service on the world the inventory service left; the values \<open>a\<close>
  and \<open>b\<close> the last two return appear nowhere in the outcome; the order's status is
  then \<open>completed\<close>, and the result pairs the payment service's return value with the
  literal status \<open>completed\<close>.
\<close>

theorem processOrder_completes:
  assumes "paymentService f (order_id ord) (amount ord) w = (Inr tid, w1)"
      and "inventoryService f (order_id ord) (amount ord) w1 = (Inr a, w2)"
      and "shippingService f (order_id ord) (amount ord) w2 = (Inr b, w3)"
  shows "processOrder f ord w
           = (Inr \<lparr>transactionId = tid, result_status = ''completed''\<rparr>,
              ord\<lparr>status := ''completed''\<rparr>, w3)"
  using assms by (simp add: processOrder_def complete_def)

theorem processOrder_completes_witness:
  "processOrder
     (OrderFacade_ctor (ShippingService_process (\<lambda>_. ''100''))
        (PaymentService_process (\<lambda>_. ''100'')) (InventoryService_process (\<lambda>_. ''100'')))
     \<lparr>order_id = ''12345'', amount = Fin 100, status = ''pending''\<rparr>
     \<lparr>console = [], ext = ()\<rparr>
   = (Inr \<lparr>transactionId = ''payment-processed'', result_status = ''completed''\<rparr>,
      \<lparr>order_id = ''12345'', amount = Fin 100, status = ''completed''\<rparr>,
      \<lparr>console = [''Processing payment for order ID: 12345 with value: 100'',
                  ''Processing inventory for order ID: 12345 with value: 100'',
                  ''Processing shipping for order ID: 12345 with value: 100''],
       ext = ()\<rparr>)"
  using processOrder_completes
    [where f = "OrderFacade_ctor (ShippingService_process (\<lambda>_. ''100''))
        (PaymentService_process (\<lambda>_. ''100'')) (InventoryService_process (\<lambda>_. ''100''))"
       and ord = "\<lparr>order_id = ''12345'', amount = Fin 100, status = ''pending''\<rparr>"
       and w = "\<lparr>console = [], ext = ()\<rparr>"
       and tid = "''payment-processed''" and a = "''inventory-updated''"
       and b = "''shipping-processed''"
       and ?w1.0 = "\<lparr>console = [''Processing payment for order ID: 12345 with value: 100''],
                    ext = ()\<rparr>"
       and ?w2.0 = "\<lparr>console = [''Processing payment for order ID: 12345 with value: 100'',
                               ''Processing inventory for order ID: 12345 with value: 100''],
                    ext = ()\<rparr>"
       and ?w3.0 = "\<lparr>console = [''Processing payment for order ID: 12345 with value: 100'',
                               ''Processing inventory for order ID: 12345 with value: 100'',
                               ''Processing shipping for order ID: 12345 with value: 100''],
                    ext = ()\<rparr>"]
  by (simp add: OrderFacade_ctor_def PaymentService_process_def InventoryService_process_def
        ShippingService_process_def console_log_def)

section \<open>Proxy\<close>

lemma processPayment_denied:
  "userRole p \<noteq> ''admin'' \<Longrightarrow>
     processPayment fmt p amt orderId w = (Inl (Error msg_acesso_negado), p, w)"
  by (simp add: processPayment_def)

text \<open>
  C4. With a role other than \<open>admin\<close>, every call throws the access-denied error and
  leaves the proxy and the world as they were, whatever the wrapped gateway is and
  whatever the arguments are; so does every sequence of calls. The world holds the log
  of any spy put on the gateway, so no call of the gateway is ever recorded.
\<close>

theorem processPayment_access_denied:
  assumes "userRole p \<noteq> ''admin''"
  shows "processPayment fmt p amt orderId w = (Inl (Error msg_acesso_negado), p, w)
       \<and> processPayment_calls fmt p cs w
           = (replicate (length cs) (Inl (Error msg_acesso_negado)), p, w)"
proof
  show "processPayment fmt p amt orderId w = (Inl (Error msg_acesso_negado), p, w)"
    using assms by (rule processPayment_denied)
  show "processPayment_calls fmt p cs w
          = (replicate (length cs) (Inl (Error msg_acesso_negado)), p, w)"
  proof (induction cs)
    case Nil
    show ?case by simp
  next
    case (Cons c cs)
    then show ?case
      using assms by (simp add: processPayment_denied)
  qed
qed

theorem processPayment_access_denied_witness:
  "fst (processPayment_calls (\<lambda>_. ''100'')
     (PaymentProxy_ctor
        (spyOn_gateway (RealOrderProcessorPayment_processPayment (\<lambda>_. ''100''))) ''guest'')
     [(Fin 100, ''order123''), (Fin 250, ''order456'')]
     \<lparr>console = [], ext = ((), [])\<rparr>)
   = [Inl (Error msg_acesso_negado), Inl (Error msg_acesso_negado)]
   \<and> spied_calls (snd (snd (processPayment_calls (\<lambda>_. ''100'')
     (PaymentProxy_ctor
        (spyOn_gateway (RealOrderProcessorPayment_processPayment (\<lambda>_. ''100''))) ''guest'')
     [(Fin 100, ''order123''), (Fin 250, ''order456'')]
     \<lparr>console = [], ext = ((), [])\<rparr>))) = []"
  using processPayment_access_denied
    [of "PaymentProxy_ctor
        (spyOn_gateway (RealOrderProcessorPayment_processPayment (\<lambda>_. ''100''))) ''guest''"
        "\<lambda>_. ''100''" "Fin 100" "''order123''" "\<lparr>console = [], ext = ((), [])\<rparr>"
        "[(Fin 100, ''order123''), (Fin 250, ''order456'')]"]
  by (simp add: PaymentProxy_ctor_def spied_calls_def del: processPayment_calls.simps)

lemma processPayment_miss:
  assumes "userRole p = ''admin''"
      and "cache p (cacheKey fmt orderId amt) = None"
      and "realProcessor p amt orderId w = (Inr r, w1)"
  shows "processPayment fmt p amt orderId w
           = (Inr r, p\<lparr>cache := (cache p)(cacheKey fmt orderId amt \<mapsto> r)\<rparr>, w1)"
  using assms by (simp add: processPayment_def)

lemma processPayment_hit:
  assumes "userRole p = ''admin''"
      and "cache p (cacheKey fmt orderId amt) = Some r"
  shows "processPayment fmt p amt orderId w
           = (Inr r, p,
              console_log (''Retornando resultado do cache para pedido '' @ orderId) w)"
  using assms by (simp add: processPayment_def)

lemma spyOn_gateway_run:
  assumes "gw amt orderId \<lparr>console = console w, ext = fst (ext w)\<rparr> = (r, w1)"
  shows "spyOn_gateway gw amt orderId w
           = (r, \<lparr>console = console w1, ext = (ext w1, spied_calls w @ [(amt, orderId)])\<rparr>)"
  using assms by (simp add: spyOn_gateway_def with_spy_def spied_calls_def)

text \<open>
  C5. An \<open>admin\<close> proxy whose cache has no entry for the key of \<open>(orderId, amount)\<close>,
  around a gateway that returns a result for that pair: the first call delegates and
  stores the result under the key, which is the identifier, an underscore and the
  printed amount; the second call with the same pair returns the stored result and
  only prints a line. A spy on the gateway has recorded exactly one call, the first,
  after the two.
\<close>

theorem processPayment_memoizes:
  assumes admin: "userRole p = ''admin''"
      and spy: "realProcessor p = spyOn_gateway gw"
      and fresh: "cache p (cacheKey fmt orderId amt) = None"
      and ok: "gw amt orderId \<lparr>console = console w, ext = fst (ext w)\<rparr> = (Inr r, w1)"
      and p1: "p1 = p\<lparr>cache := (cache p)(orderId @ ''_'' @ fmt amt \<mapsto> r)\<rparr>"
      and wa: "wa = \<lparr>console = console w1, ext = (ext w1, spied_calls w @ [(amt, orderId)])\<rparr>"
  shows "processPayment fmt p amt orderId w = (Inr r, p1, wa)
       \<and> processPayment fmt p1 amt orderId wa
           = (Inr r, p1,
              console_log (''Retornando resultado do cache para pedido '' @ orderId) wa)
       \<and> spied_calls
            (snd (snd (processPayment_calls fmt p [(amt, orderId), (amt, orderId)] w)))
           = spied_calls w @ [(amt, orderId)]"
proof -
  have run: "realProcessor p amt orderId w = (Inr r, wa)"
    unfolding spy wa using ok by (rule spyOn_gateway_run)
  have first: "processPayment fmt p amt orderId w = (Inr r, p1, wa)"
    using processPayment_miss [OF admin fresh run] by (simp add: p1 cacheKey_def)
  have admin1: "userRole p1 = ''admin''"
    using admin by (simp add: p1)
  have cached: "cache p1 (cacheKey fmt orderId amt) = Some r"
    by (simp add: p1 cacheKey_def)
  have second: "processPayment fmt p1 amt orderId wa
           = (Inr r, p1,
              console_log (''Retornando resultado do cache para pedido '' @ orderId) wa)"
    using admin1 cached by (rule processPayment_hit)
  have both: "spied_calls
            (snd (snd (processPayment_calls fmt p [(amt, orderId), (amt, orderId)] w)))
           = spied_calls w @ [(amt, orderId)]"
    by (simp add: first second) (simp add: wa console_log_def spied_calls_def)
  from first second both show ?thesis by blast
qed

theorem processPayment_memoizes_witness:
  "fst (processPayment_calls (\<lambda>_. ''100'')
     (PaymentProxy_ctor
        (spyOn_gateway (RealOrderProcessorPayment_processPayment (\<lambda>_. ''100''))) ''admin'')
     [(Fin 100, ''order123''), (Fin 100, ''order123'')]
     \<lparr>console = [], ext = ((), [])\<rparr>)
   = [Inr \<lparr>transactionId = ''txn_order123'', result_status = ''success''\<rparr>,
      Inr \<lparr>transactionId = ''txn_order123'', result_status = ''success''\<rparr>]
   \<and> spied_calls (snd (snd (processPayment_calls (\<lambda>_. ''100'')
     (PaymentProxy_ctor
        (spyOn_gateway (RealOrderProcessorPayment_processPayment (\<lambda>_. ''100''))) ''admin'')
     [(Fin 100, ''order123''), (Fin 100, ''order123'')]
     \<lparr>console = [], ext = ((), [])\<rparr>))) = [(Fin 100, ''order123'')]"
  using processPayment_memoizes
    [where p = "PaymentProxy_ctor
        (spyOn_gateway (RealOrderProcessorPayment_processPayment (\<lambda>_. ''100''))) ''admin''"
       and gw = "RealOrderProcessorPayment_processPayment (\<lambda>_. ''100'')"
       and fmt = "\<lambda>_. ''100''" and amt = "Fin 100" and orderId = "''order123''"
       and w = "\<lparr>console = [], ext = ((), [])\<rparr>"
       and r = "\<lparr>transactionId = ''txn_order123'', result_status = ''success''\<rparr>"
       and ?w1.0 = "\<lparr>console = [''Processing payment of 100 for order order123''], ext = ()\<rparr>",
     OF _ _ _ _ refl refl]
  by (simp add: PaymentProxy_ctor_def RealOrderProcessorPayment_processPayment_def
        console_log_def spied_calls_def cacheKey_def)

section \<open>Template method\<close>

text \<open>
  C9. For an order whose amount is less than or equal to zero, \<open>processPayment\<close>
  throws the invalid-amount error of \<open>validateOrder\<close>; the order it returns is the
  order it was given, status included, and the world is the one it was given, whatever
  the two payment steps of the subclass are: neither has run, and neither has
  \<open>complete\<close>.
\<close>

theorem template_processPayment_rejects:
  assumes "js_le (amount ord) (Fin 0)"
  shows "template_processPayment t ord w = (Inl (Error msg_valor_invalido_pagamento), ord, w)"
  using assms by (simp add: template_processPayment_def validateOrder_def)

theorem template_processPayment_rejects_witness:
  "Order_ctor (Some ''order123'') (Fin 0) None
     = Inr \<lparr>order_id = ''order123'', amount = Fin 0, status = ''pending''\<rparr>
   \<and> template_processPayment (CreditPayment (\<lambda>_. ''0''))
       \<lparr>order_id = ''order123'', amount = Fin 0, status = ''pending''\<rparr>
       \<lparr>console = [], ext = 1700000000000\<rparr>
     = (Inl (Error msg_valor_invalido_pagamento),
        \<lparr>order_id = ''order123'', amount = Fin 0, status = ''pending''\<rparr>,
        \<lparr>console = [], ext = 1700000000000\<rparr>)
   \<and> template_processPayment (CreditPayment (\<lambda>_. ''-50''))
       \<lparr>order_id = ''order123'', amount = Fin (- 50), status = ''pending''\<rparr>
       \<lparr>console = [], ext = 1700000000000\<rparr>
     = (Inl (Error msg_valor_invalido_pagamento),
        \<lparr>order_id = ''order123'', amount = Fin (- 50), status = ''pending''\<rparr>,
        \<lparr>console = [], ext = 1700000000000\<rparr>)"
  using template_processPayment_rejects
    [of "\<lparr>order_id = ''order123'', amount = Fin 0, status = ''pending''\<rparr>"
        "CreditPayment (\<lambda>_. ''0'')" "\<lparr>console = [], ext = 1700000000000\<rparr>"]
    template_processPayment_rejects
    [of "\<lparr>order_id = ''order123'', amount = Fin (- 50), status = ''pending''\<rparr>"
        "CreditPayment (\<lambda>_. ''-50'')" "\<lparr>console = [], ext = 1700000000000\<rparr>"]
  by (simp add: Order_ctor_def default_status_def)

section \<open>Observer\<close>







lemma spyOn_update_run:
  assumes "upd ob st (s, \<lparr>console = console w, ext = fst (ext w)\<rparr>) = (r, s1, w1)"
  shows "spyOn_update upd ob st (s, w)
           = (r, s1, \<lparr>console = console w1, ext = (ext w1, spied_calls w @ [(ob, st)])\<rparr>)"
  using assms by (simp add: spyOn_update_def spied_calls_def)

lemma spyOn_update_subject:
  "fst (snd (spyOn_update upd ob st \<sigma>))
     = fst (snd (upd ob st (fst \<sigma>, \<lparr>console = console (snd \<sigma>), ext = fst (ext (snd \<sigma>))\<rparr>)))"
  by (simp add: spyOn_update_def split: prod.splits)



lemma spyOn_update_frame:
  "\<forall>ob\<in>S. \<forall>st \<sigma>. fst (snd (upd ob st \<sigma>)) = fst \<sigma> \<Longrightarrow>
     \<forall>ob\<in>S. \<forall>st \<sigma>. fst (snd (spyOn_update upd ob st \<sigma>)) = fst \<sigma>"
  by (simp add: spyOn_update_subject)



lemma notify_loop_seq:
  "\<forall>ob\<in>set (observers (fst \<sigma>)). \<forall>st \<sigma>'.
      observers (fst (snd (upd ob st \<sigma>'))) = observers (fst \<sigma>') \<Longrightarrow>
   notify_loop upd i \<sigma> = Some (notify_seq upd (drop i (observers (fst \<sigma>))) \<sigma>)"
proof (induction n \<equiv> "length (observers (fst \<sigma>)) - i" arbitrary: i \<sigma>)
  case 0
  then have "\<not> i < length (observers (fst \<sigma>))" by simp
  then show ?case by (subst notify_loop.simps) simp
next
  case (Suc n)
  then have lt: "i < length (observers (fst \<sigma>))" by simp
  let ?ob = "observers (fst \<sigma>) ! i"
  let ?st = "status (subject_order (fst \<sigma>))"
  obtain r \<sigma>1 where u: "upd ?ob ?st \<sigma> = (r, \<sigma>1)"
    by (cases "upd ?ob ?st \<sigma>")
  from lt have "?ob \<in> set (observers (fst \<sigma>))" by simp
  with Suc.prems have "observers (fst (snd (upd ?ob ?st \<sigma>))) = observers (fst \<sigma>)"
    by blast
  with u have k: "observers (fst \<sigma>1) = observers (fst \<sigma>)" by simp
  have d: "drop i (observers (fst \<sigma>)) = ?ob # drop (Suc i) (observers (fst \<sigma>))"
    using lt by (simp add: Cons_nth_drop_Suc)
  show ?case
  proof (cases r)
    case (Inl e)
    with u lt d show ?thesis by (subst notify_loop.simps) simp
  next
    case (Inr v)
    from Suc.hyps(2) k have m: "n = length (observers (fst \<sigma>1)) - Suc i" by simp
    from Suc.prems k have keep1: "\<forall>ob\<in>set (observers (fst \<sigma>1)). \<forall>st \<sigma>'.
      observers (fst (snd (upd ob st \<sigma>'))) = observers (fst \<sigma>')" by simp
    from Suc.hyps(1) [OF m keep1]
    have "notify_loop upd (Suc i) \<sigma>1
            = Some (notify_seq upd (drop (Suc i) (observers (fst \<sigma>1))) \<sigma>1)" .
    with Inr u lt d k show ?thesis by (subst notify_loop.simps) simp
  qed
qed

lemma notify_seq_spec:
  "\<forall>ob\<in>set obs. \<forall>st \<sigma>. fst (snd (upd ob st \<sigma>)) = fst \<sigma> \<Longrightarrow>
     notify_seq upd obs \<sigma> = notify_spec upd (status (subject_order (fst \<sigma>))) obs \<sigma>"
proof (induction obs arbitrary: \<sigma>)
  case Nil
  show ?case by simp
next
  case (Cons ob obs)
  obtain r \<sigma>1 where u: "upd ob (status (subject_order (fst \<sigma>))) \<sigma> = (r, \<sigma>1)"
    by (cases "upd ob (status (subject_order (fst \<sigma>))) \<sigma>")
  from Cons.prems have "fst (snd (upd ob (status (subject_order (fst \<sigma>))) \<sigma>)) = fst \<sigma>"
    by (simp del: split_paired_All)
  with u have k: "fst \<sigma>1 = fst \<sigma>" by simp
  from Cons.prems have rest: "\<forall>ob\<in>set obs. \<forall>st \<sigma>. fst (snd (upd ob st \<sigma>)) = fst \<sigma>"
    by simp
  show ?case
  proof (cases r)
    case (Inl e)
    with u show ?thesis by simp
  next
    case (Inr v)
    with u k Cons.IH [OF rest, of \<sigma>1] show ?thesis by simp
  qed
qed

lemma notify_spec_subject:
  "\<forall>ob\<in>set obs. \<forall>st \<sigma>. fst (snd (upd ob st \<sigma>)) = fst \<sigma> \<Longrightarrow>
     fst (snd (notify_spec upd st obs \<sigma>)) = fst \<sigma>"
proof (induction obs arbitrary: \<sigma>)
  case Nil
  show ?case by simp
next
  case (Cons ob obs)
  obtain r \<sigma>1 where u: "upd ob st \<sigma> = (r, \<sigma>1)"
    by (cases "upd ob st \<sigma>")
  from Cons.prems have "fst (snd (upd ob st \<sigma>)) = fst \<sigma>" by (simp del: split_paired_All)
  with u have k: "fst \<sigma>1 = fst \<sigma>" by simp
  from Cons.prems have rest: "\<forall>ob\<in>set obs. \<forall>st \<sigma>. fst (snd (upd ob st \<sigma>)) = fst \<sigma>"
    by simp
  show ?case
  proof (cases r)
    case (Inl e)
    with u k show ?thesis by simp
  next
    case (Inr v)
    with u k Cons.IH [OF rest, of \<sigma>1] show ?thesis by simp
  qed
qed

lemma spyOn_update_step:
  assumes "fst (snd (upd ob st (s, \<lparr>console = console w, ext = fst (ext w)\<rparr>))) = s"
  shows "\<exists>w1. spyOn_update upd ob st (s, w)
              = (fst (upd ob st (s, \<lparr>console = console w, ext = fst (ext w)\<rparr>)), s, w1)
           \<and> spied_calls w1 = spied_calls w @ [(ob, st)]"
  using assms
  by (cases "upd ob st (s, \<lparr>console = console w, ext = fst (ext w)\<rparr>)")
     (simp add: spyOn_update_def spied_calls_def)

lemma notify_spec_spy_all:
  "\<forall>ob\<in>set obs. \<forall>st \<sigma>. fst (snd (upd ob st \<sigma>)) = fst \<sigma> \<Longrightarrow>
   \<forall>ob\<in>set obs. \<forall>\<sigma>. fst (upd ob st \<sigma>) = Inr () \<Longrightarrow>
     \<exists>w1. notify_spec (spyOn_update upd) st obs (s, w) = (Inr (), s, w1)
        \<and> spied_calls w1 = spied_calls w @ map (\<lambda>ob. (ob, st)) obs"
proof (induction obs arbitrary: w)
  case Nil
  show ?case by simp
next
  case (Cons ob obs)
  from Cons.prems(1)
  have "fst (snd (upd ob st (s, \<lparr>console = console w, ext = fst (ext w)\<rparr>))) = s"
    by (simp del: split_paired_All)
  with spyOn_update_step [of upd ob st s w] Cons.prems(2) obtain w0 where
    step: "spyOn_update upd ob st (s, w) = (Inr (), s, w0)" and
    c0: "spied_calls w0 = spied_calls w @ [(ob, st)]" by auto
  from Cons.prems have
    "\<forall>ob\<in>set obs. \<forall>st \<sigma>. fst (snd (upd ob st \<sigma>)) = fst \<sigma>"
    "\<forall>ob\<in>set obs. \<forall>\<sigma>. fst (upd ob st \<sigma>) = Inr ()" by simp_all
  from Cons.IH [OF this, of w0] obtain w1 where
    "notify_spec (spyOn_update upd) st obs (s, w0) = (Inr (), s, w1)"
    "spied_calls w1 = spied_calls w0 @ map (\<lambda>ob. (ob, st)) obs" by blast
  with step c0 show ?case by simp
qed

lemma notify_spec_spy_throw:
  "\<forall>p\<in>set pre. \<forall>st \<sigma>. fst (snd (upd p st \<sigma>)) = fst \<sigma> \<Longrightarrow>
   \<forall>st \<sigma>. fst (snd (upd ob st \<sigma>)) = fst \<sigma> \<Longrightarrow>
   \<forall>p\<in>set pre. \<forall>\<sigma>. fst (upd p st \<sigma>) = Inr () \<Longrightarrow>
   \<forall>\<sigma>. fst (upd ob st \<sigma>) = Inl e \<Longrightarrow>
     \<exists>w1. notify_spec (spyOn_update upd) st (pre @ ob # post) (s, w) = (Inl e, s, w1)
        \<and> spied_calls w1 = spied_calls w @ map (\<lambda>ob. (ob, st)) (pre @ [ob])"
proof (induction pre arbitrary: w)
  case Nil
  from Nil.prems(2)
  have "fst (snd (upd ob st (s, \<lparr>console = console w, ext = fst (ext w)\<rparr>))) = s"
    by (simp del: split_paired_All)
  with spyOn_update_step [of upd ob st s w] Nil.prems(4) obtain w0 where
    "spyOn_update upd ob st (s, w) = (Inl e, s, w0)"
    "spied_calls w0 = spied_calls w @ [(ob, st)]" by auto
  then show ?case by simp
next
  case (Cons p pre)
  from Cons.prems(1)
  have "fst (snd (upd p st (s, \<lparr>console = console w, ext = fst (ext w)\<rparr>))) = s"
    by (simp del: split_paired_All)
  with spyOn_update_step [of upd p st s w] Cons.prems(3) obtain w0 where
    step: "spyOn_update upd p st (s, w) = (Inr (), s, w0)" and
    c0: "spied_calls w0 = spied_calls w @ [(p, st)]" by auto
  from Cons.prems have
    "\<forall>p\<in>set pre. \<forall>st \<sigma>. fst (snd (upd p st \<sigma>)) = fst \<sigma>"
    "\<forall>p\<in>set pre. \<forall>\<sigma>. fst (upd p st \<sigma>) = Inr ()" by simp_all
  from Cons.IH [OF this(1) Cons.prems(2) this(2) Cons.prems(4), of w0] obtain w1 where
    "notify_spec (spyOn_update upd) st (pre @ ob # post) (s, w0) = (Inl e, s, w1)"
    "spied_calls w1 = spied_calls w0 @ map (\<lambda>ob. (ob, st)) (pre @ [ob])" by blast
  with step c0 show ?case by simp
qed

lemma setStatus_spec:
  assumes frame: "\<forall>ob\<in>set (observers s). \<forall>st' \<sigma>. fst (snd (upd ob st' \<sigma>)) = fst \<sigma>"
  shows "setStatus upd s st w
           = Some (notify_spec upd st (observers s)
                     (s\<lparr>subject_order := (subject_order s)\<lparr>status := st\<rparr>\<rparr>, w))"
proof -
  let ?s1 = "s\<lparr>subject_order := (subject_order s)\<lparr>status := st\<rparr>\<rparr>"
  from frame have keep: "\<forall>ob\<in>set (observers (fst (?s1, w))). \<forall>st' \<sigma>'.
      observers (fst (snd (upd ob st' \<sigma>'))) = observers (fst \<sigma>')" by simp
  have "setStatus upd s st w = notify_loop upd 0 (?s1, w)"
    by (simp add: setStatus_def notify_def)
  also have "\<dots> = Some (notify_seq upd (drop 0 (observers (fst (?s1, w)))) (?s1, w))"
    using keep by (rule notify_loop_seq)
  also have "\<dots> = Some (notify_seq upd (observers s) (?s1, w))" by simp
  also have "notify_seq upd (observers s) (?s1, w)
      = notify_spec upd (status (subject_order (fst (?s1, w)))) (observers s) (?s1, w)"
    using frame by (rule notify_seq_spec)
  finally show ?thesis by simp
qed



text \<open>
  C7 (as amended). When no registered observer's \<open>update\<close> changes the subject
  (its observer list or its order), \<open>setStatus\<close> returns or throws, and does what
  \<open>notify_spec\<close> does on the subject with the new status written: the subject is
  afterwards the one it was with the new status, whether or not an observer throws;
  when every \<open>update\<close> returns, a spy has recorded one call for each registered
  observer, in registration order, each with the new status; when the observers before
  one return and that one throws \<open>e\<close>, \<open>setStatus\<close> throws \<open>e\<close> and the spy has
  recorded the calls up to and including the thrower, and none for those registered
  after it. \<open>addObserver\<close> appends, so the list order is the registration order.
\<close>

theorem setStatus_notifies:
  assumes frame: "\<forall>ob\<in>set (observers s). \<forall>st' \<sigma>. fst (snd (upd ob st' \<sigma>)) = fst \<sigma>"
  shows "setStatus (spyOn_update upd) s st w
           = Some (notify_spec (spyOn_update upd) st (observers s)
                     (s\<lparr>subject_order := (subject_order s)\<lparr>status := st\<rparr>\<rparr>, w))
       \<and> fst (snd (notify_spec (spyOn_update upd) st (observers s)
                     (s\<lparr>subject_order := (subject_order s)\<lparr>status := st\<rparr>\<rparr>, w)))
           = s\<lparr>subject_order := (subject_order s)\<lparr>status := st\<rparr>\<rparr>
       \<and> ((\<forall>ob\<in>set (observers s). \<forall>\<sigma>. fst (upd ob st \<sigma>) = Inr ()) \<longrightarrow>
            (\<exists>w1. setStatus (spyOn_update upd) s st w
                     = Some (Inr (), s\<lparr>subject_order := (subject_order s)\<lparr>status := st\<rparr>\<rparr>, w1)
                 \<and> spied_calls w1 = spied_calls w @ map (\<lambda>ob. (ob, st)) (observers s)))
       \<and> (observers s = pre @ ob # post
            \<and> (\<forall>p\<in>set pre. \<forall>\<sigma>. fst (upd p st \<sigma>) = Inr ())
            \<and> (\<forall>\<sigma>. fst (upd ob st \<sigma>) = Inl e) \<longrightarrow>
            (\<exists>w1. setStatus (spyOn_update upd) s st w
                     = Some (Inl e, s\<lparr>subject_order := (subject_order s)\<lparr>status := st\<rparr>\<rparr>, w1)
                 \<and> spied_calls w1 = spied_calls w @ map (\<lambda>ob. (ob, st)) (pre @ [ob])))
       \<and> observers (addObserver s ob') = observers s @ [ob']"
proof -
  let ?s1 = "s\<lparr>subject_order := (subject_order s)\<lparr>status := st\<rparr>\<rparr>"
  let ?spy = "spyOn_update upd"
  from frame have sframe:
    "\<forall>ob\<in>set (observers s). \<forall>st' \<sigma>. fst (snd (?spy ob st' \<sigma>)) = fst \<sigma>"
    by (rule spyOn_update_frame)
  have run: "setStatus ?spy s st w = Some (notify_spec ?spy st (observers s) (?s1, w))"
    using sframe by (rule setStatus_spec)
  have subj: "fst (snd (notify_spec ?spy st (observers s) (?s1, w))) = ?s1"
    using notify_spec_subject [OF sframe, of st "(?s1, w)"] by simp
  have ok: "(\<forall>ob\<in>set (observers s). \<forall>\<sigma>. fst (upd ob st \<sigma>) = Inr ()) \<longrightarrow>
            (\<exists>w1. setStatus ?spy s st w = Some (Inr (), ?s1, w1)
                 \<and> spied_calls w1 = spied_calls w @ map (\<lambda>ob. (ob, st)) (observers s))"
  proof
    assume "\<forall>ob\<in>set (observers s). \<forall>\<sigma>. fst (upd ob st \<sigma>) = Inr ()"
    from notify_spec_spy_all [OF frame this, of ?s1 w] run
    show "\<exists>w1. setStatus ?spy s st w = Some (Inr (), ?s1, w1)
                 \<and> spied_calls w1 = spied_calls w @ map (\<lambda>ob. (ob, st)) (observers s)"
      by auto
  qed
  have thr: "observers s = pre @ ob # post
            \<and> (\<forall>p\<in>set pre. \<forall>\<sigma>. fst (upd p st \<sigma>) = Inr ())
            \<and> (\<forall>\<sigma>. fst (upd ob st \<sigma>) = Inl e) \<longrightarrow>
            (\<exists>w1. setStatus ?spy s st w = Some (Inl e, ?s1, w1)
                 \<and> spied_calls w1 = spied_calls w @ map (\<lambda>ob. (ob, st)) (pre @ [ob]))"
  proof
    assume h: "observers s = pre @ ob # post
            \<and> (\<forall>p\<in>set pre. \<forall>\<sigma>. fst (upd p st \<sigma>) = Inr ())
            \<and> (\<forall>\<sigma>. fst (upd ob st \<sigma>) = Inl e)"
    with frame have f1: "\<forall>p\<in>set pre. \<forall>st \<sigma>. fst (snd (upd p st \<sigma>)) = fst \<sigma>"
      and f2: "\<forall>st \<sigma>. fst (snd (upd ob st \<sigma>)) = fst \<sigma>" by simp_all
    from h have f3: "\<forall>p\<in>set pre. \<forall>\<sigma>. fst (upd p st \<sigma>) = Inr ()"
      and f4: "\<forall>\<sigma>. fst (upd ob st \<sigma>) = Inl e" by simp_all
    from notify_spec_spy_throw [OF f1 f2 f3 f4, of post ?s1 w] run h
    show "\<exists>w1. setStatus ?spy s st w = Some (Inl e, ?s1, w1)
                 \<and> spied_calls w1 = spied_calls w @ map (\<lambda>ob. (ob, st)) (pre @ [ob])"
      by auto
  qed
  have add: "observers (addObserver s ob') = observers s @ [ob']"
    by (simp add: addObserver_def)
  from run subj ok thr add show ?thesis by blast
qed


theorem setStatus_notifies_witness:
  "setStatus (spyOn_update observer_update)
     \<lparr>observers = [EmailNotifier 0, Failing 0, SmsNotifier 0],
      subject_order = \<lparr>order_id = ''12345'', amount = Fin 100, status = ''pending''\<rparr>\<rparr>
     ''shipped'' \<lparr>console = [], ext = ((), [])\<rparr>
   = Some (Inl (Error ''update failed''),
      \<lparr>observers = [EmailNotifier 0, Failing 0, SmsNotifier 0],
       subject_order = \<lparr>order_id = ''12345'', amount = Fin 100, status = ''shipped''\<rparr>\<rparr>,
      \<lparr>console = [''Email notification sent: Order status changed to shipped''],
       ext = ((), [(EmailNotifier 0, ''shipped''), (Failing 0, ''shipped'')])\<rparr>)"
  using setStatus_notifies
    [where upd = observer_update
       and s = "\<lparr>observers = [EmailNotifier 0, Failing 0, SmsNotifier 0],
                 subject_order = \<lparr>order_id = ''12345'', amount = Fin 100,
                                  status = ''pending''\<rparr>\<rparr>"
       and st = "''shipped''" and w = "\<lparr>console = [], ext = ((), [])\<rparr>"
       and pre = "[EmailNotifier 0]" and ob = "Failing 0" and post = "[SmsNotifier 0]"
       and e = "Error ''update failed''" and ob' = "EmailNotifier 1"]
  by (simp add: spyOn_update_def EmailNotifier_update_def SmsNotifier_update_def
        console_log_def)

text \<open>
  C7 as stated fails when an observer changes the observer list during \<open>update\<close>:
  the loop walks the array as it is at each turn, so after the first observer has
  taken itself off the subject the email notifier, which is registered, is passed over.
\<close>

theorem setStatus_skips_after_unsubscribe:
  "setStatus (spyOn_update observer_update)
     \<lparr>observers = [SelfRemoving 0, EmailNotifier 0, SmsNotifier 0],
      subject_order = \<lparr>order_id = ''12345'', amount = Fin 100, status = ''pending''\<rparr>\<rparr>
     ''shipped'' \<lparr>console = [], ext = ((), [])\<rparr>
   = Some (Inr (),
      \<lparr>observers = [EmailNotifier 0, SmsNotifier 0],
       subject_order = \<lparr>order_id = ''12345'', amount = Fin 100, status = ''shipped''\<rparr>\<rparr>,
      \<lparr>console = [''Enviando SMS: Status do pedido atualizado para shipped''],
       ext = ((), [(SelfRemoving 0, ''shipped''), (SmsNotifier 0, ''shipped'')])\<rparr>)"
  by (simp add: setStatus_def notify_def notify_loop.simps spyOn_update_def
        removeObserver_def splice1_def SmsNotifier_update_def EmailNotifier_update_def
        console_log_def)






section \<open>Singleton\<close>


lemma cells_assign_other: "a \<noteq> r \<Longrightarrow> cells (assign a f h) r = cells h r"
  by (simp add: assign_def)

lemma cells_assign_same: "cells (assign r f h) r = f (cells h r)"
  by (simp add: assign_def)

lemma next_ref_assign: "next_ref (assign a f h) = next_ref h"
  by (simp add: assign_def)

lemma alloc_fresh:
  "alloc v h = (r, h1) \<Longrightarrow>
     r = next_ref h \<and> next_ref h1 = Suc (next_ref h) \<and> cells h1 r = v
     \<and> (\<forall>a. a \<noteq> r \<longrightarrow> cells h1 a = cells h a)"
  by (auto simp: alloc_def)

lemma copy_is_fresh:
  assumes live: "c < next_ref h"
      and copy: "alloc (cells h c) h = (r, h1)"
  shows "r \<noteq> c \<and> cells h1 r = cells h c \<and> cells h1 c = cells h c
       \<and> cells (assign r f h1) c = cells h c
       \<and> (case alloc (cells (assign r f h1) c) (assign r f h1) of
            (r2, h2) \<Rightarrow> r2 \<noteq> c \<and> r2 \<noteq> r \<and> cells h2 r2 = cells h c)"
proof -
  from alloc_fresh [OF copy] have r: "r = next_ref h" and n1: "next_ref h1 = Suc (next_ref h)"
    and v: "cells h1 r = cells h c" and rest: "\<forall>a. a \<noteq> r \<longrightarrow> cells h1 a = cells h a"
    by blast+
  from live r have ne: "r \<noteq> c" by simp
  with rest have keep: "cells h1 c = cells h c" by simp
  from ne have after: "cells (assign r f h1) c = cells h1 c"
    by (simp add: cells_assign_other)
  have again: "case alloc (cells (assign r f h1) c) (assign r f h1) of
            (r2, h2) \<Rightarrow> r2 \<noteq> c \<and> r2 \<noteq> r \<and> cells h2 r2 = cells h c"
    using live r n1 after keep by (simp add: alloc_def next_ref_assign)
  from ne v keep after again show ?thesis by simp
qed

lemma setConfig_cells:
  "cells (write_timeout c t (write_apiKey c k h)) c = \<lparr>apiKey = k, timeout = t\<rparr>"
  by (simp add: write_timeout_def write_apiKey_def assign_def)

lemma getInstance_fresh:
  assumes "instance_slot s = None"
  shows "case getInstance s of
           (m, s1) \<Rightarrow>
             next_ref (objs s) \<le> config_ref m \<and> config_ref m < next_ref (objs s1)
             \<and> cells (objs s1) (config_ref m) = \<lparr>apiKey = ''default-key'', timeout = Fin 3000\<rparr>
             \<and> getInstance s1 = (m, s1)"
  using assms by (simp add: getInstance_def ConfigManager_ctor_def alloc_def)

text \<open>
  C10 (as amended). In both classes \<open>getConfig\<close> returns a new record holding the
  stored values: it is not the record the manager holds, an assignment \<open>f\<close> to it
  leaves the stored configuration as it was, and a later \<open>getConfig\<close> returns the
  stored values again. The stored configuration is changed by \<open>setConfig\<close>, and by
  no assignment through a reference other than the one the manager holds. The record
  of the singleton is made by its constructor, after every reference that existed
  before, and both holders get the same manager from \<open>getInstance\<close>.
\<close>

theorem getConfig_returns_copy:
  assumes live: "config_ref m < next_ref h"
      and live_i: "injected_config_ref mi < next_ref h"
  shows "(case getConfig m h of
            (r, h1) \<Rightarrow>
              r \<noteq> config_ref m \<and> cells h1 r = cells h (config_ref m)
              \<and> cells (assign r f h1) (config_ref m) = cells h (config_ref m)
              \<and> (case getConfig m (assign r f h1) of
                    (r2, h2) \<Rightarrow> cells h2 r2 = cells h (config_ref m)))
       \<and> (case getConfig_injected mi h of
            (r, h1) \<Rightarrow>
              r \<noteq> injected_config_ref mi \<and> cells h1 r = cells h (injected_config_ref mi)
              \<and> cells (assign r f h1) (injected_config_ref mi) = cells h (injected_config_ref mi)
              \<and> (case getConfig_injected mi (assign r f h1) of
                    (r2, h2) \<Rightarrow> cells h2 r2 = cells h (injected_config_ref mi)))
       \<and> (a \<noteq> config_ref m \<longrightarrow> cells (assign a f h) (config_ref m) = cells h (config_ref m))
       \<and> (a \<noteq> injected_config_ref mi \<longrightarrow>
            cells (assign a f h) (injected_config_ref mi) = cells h (injected_config_ref mi))
       \<and> cells (setConfig m k t h) (config_ref m) = \<lparr>apiKey = k, timeout = t\<rparr>
       \<and> cells (setConfig_injected mi k t h) (injected_config_ref mi)
           = \<lparr>apiKey = k, timeout = t\<rparr>
       \<and> (instance_slot s = None \<longrightarrow>
            (case getInstance s of
               (ms, s1) \<Rightarrow>
                 next_ref (objs s) \<le> config_ref ms \<and> config_ref ms < next_ref (objs s1)
                 \<and> cells (objs s1) (config_ref ms)
                     = \<lparr>apiKey = ''default-key'', timeout = Fin 3000\<rparr>
                 \<and> getInstance s1 = (ms, s1)))"
proof -
  obtain r h1 where g: "getConfig m h = (r, h1)" by (cases "getConfig m h") auto
  then have ga: "alloc (cells h (config_ref m)) h = (r, h1)" by (simp add: getConfig_def)
  have one: "case getConfig m h of
            (r, h1) \<Rightarrow>
              r \<noteq> config_ref m \<and> cells h1 r = cells h (config_ref m)
              \<and> cells (assign r f h1) (config_ref m) = cells h (config_ref m)
              \<and> (case getConfig m (assign r f h1) of
                    (r2, h2) \<Rightarrow> cells h2 r2 = cells h (config_ref m))"
    using copy_is_fresh [OF live ga, of f] by (simp add: g) (simp add: getConfig_def split: prod.splits)
  obtain ri hi where gi: "getConfig_injected mi h = (ri, hi)"
    by (cases "getConfig_injected mi h") auto
  then have gia: "alloc (cells h (injected_config_ref mi)) h = (ri, hi)"
    by (simp add: getConfig_injected_def)
  have two: "case getConfig_injected mi h of
            (r, h1) \<Rightarrow>
              r \<noteq> injected_config_ref mi \<and> cells h1 r = cells h (injected_config_ref mi)
              \<and> cells (assign r f h1) (injected_config_ref mi) = cells h (injected_config_ref mi)
              \<and> (case getConfig_injected mi (assign r f h1) of
                    (r2, h2) \<Rightarrow> cells h2 r2 = cells h (injected_config_ref mi))"
    using copy_is_fresh [OF live_i gia, of f]
    by (simp add: gi) (simp add: getConfig_injected_def split: prod.splits)
  have three: "a \<noteq> config_ref m \<longrightarrow>
      cells (assign a f h) (config_ref m) = cells h (config_ref m)"
    by (simp add: cells_assign_other)
  have four: "a \<noteq> injected_config_ref mi \<longrightarrow>
      cells (assign a f h) (injected_config_ref mi) = cells h (injected_config_ref mi)"
    by (simp add: cells_assign_other)
  have five: "cells (setConfig m k t h) (config_ref m) = \<lparr>apiKey = k, timeout = t\<rparr>"
    by (simp add: setConfig_def setConfig_cells)
  have six: "cells (setConfig_injected mi k t h) (injected_config_ref mi)
           = \<lparr>apiKey = k, timeout = t\<rparr>"
    by (simp add: setConfig_injected_def setConfig_cells)
  have seven: "instance_slot s = None \<longrightarrow>
            (case getInstance s of
               (ms, s1) \<Rightarrow>
                 next_ref (objs s) \<le> config_ref ms \<and> config_ref ms < next_ref (objs s1)
                 \<and> cells (objs s1) (config_ref ms)
                     = \<lparr>apiKey = ''default-key'', timeout = Fin 3000\<rparr>
                 \<and> getInstance s1 = (ms, s1))"
    by (rule impI) (rule getInstance_fresh)
  from one two three four five six seven show ?thesis by blast
qed

text \<open>
  C10 as stated fails for \<open>ConfigManagerInjected\<close>: its constructor stores the
  record it is given, not a copy, so the caller that built the record changes the
  stored configuration by assigning to its own record, with no call of \<open>setConfig\<close>.
\<close>

theorem ConfigManagerInjected_shares_argument:
  "alloc \<lparr>apiKey = ''injected-key'', timeout = Fin 5000\<rparr> empty_store
     = (0, snd (alloc \<lparr>apiKey = ''injected-key'', timeout = Fin 5000\<rparr> empty_store))
   \<and> ConfigManagerInjected_ctor (Some 0)
       (snd (alloc \<lparr>apiKey = ''injected-key'', timeout = Fin 5000\<rparr> empty_store))
     = (\<lparr>injected_config_ref = 0\<rparr>,
        snd (alloc \<lparr>apiKey = ''injected-key'', timeout = Fin 5000\<rparr> empty_store))
   \<and> cells (snd (getConfig_injected \<lparr>injected_config_ref = 0\<rparr>
         (snd (alloc \<lparr>apiKey = ''injected-key'', timeout = Fin 5000\<rparr> empty_store))))
       (fst (getConfig_injected \<lparr>injected_config_ref = 0\<rparr>
         (snd (alloc \<lparr>apiKey = ''injected-key'', timeout = Fin 5000\<rparr> empty_store))))
     = \<lparr>apiKey = ''injected-key'', timeout = Fin 5000\<rparr>
   \<and> cells (snd (getConfig_injected \<lparr>injected_config_ref = 0\<rparr>
         (write_apiKey 0 ''changed''
           (snd (alloc \<lparr>apiKey = ''injected-key'', timeout = Fin 5000\<rparr> empty_store)))))
       (fst (getConfig_injected \<lparr>injected_config_ref = 0\<rparr>
         (write_apiKey 0 ''changed''
           (snd (alloc \<lparr>apiKey = ''injected-key'', timeout = Fin 5000\<rparr> empty_store)))))
     = \<lparr>apiKey = ''changed'', timeout = Fin 5000\<rparr>"
  by (simp add: alloc_def empty_store_def ConfigManagerInjected_ctor_def
        getConfig_injected_def write_apiKey_def assign_def)


theorem getConfig_returns_copy_witness:
  "fst (getConfig \<lparr>config_ref = 1\<rparr> \<lparr>cells = (\<lambda>_. \<lparr>apiKey = [], timeout = Fin 0\<rparr>)
                 (1 := \<lparr>apiKey = ''default-key'', timeout = Fin 3000\<rparr>,
                  2 := \<lparr>apiKey = ''injected-key'', timeout = Fin 5000\<rparr>),
        next_ref = 3\<rparr>) = 3
   \<and> cells (write_apiKey 3 ''changed'' (snd (getConfig \<lparr>config_ref = 1\<rparr> \<lparr>cells = (\<lambda>_. \<lparr>apiKey = [], timeout = Fin 0\<rparr>)
                 (1 := \<lparr>apiKey = ''default-key'', timeout = Fin 3000\<rparr>,
                  2 := \<lparr>apiKey = ''injected-key'', timeout = Fin 5000\<rparr>),
        next_ref = 3\<rparr>))) 1
       = \<lparr>apiKey = ''default-key'', timeout = Fin 3000\<rparr>
   \<and> cells (snd (getConfig \<lparr>config_ref = 1\<rparr>
                (write_apiKey 3 ''changed'' (snd (getConfig \<lparr>config_ref = 1\<rparr> \<lparr>cells = (\<lambda>_. \<lparr>apiKey = [], timeout = Fin 0\<rparr>)
                 (1 := \<lparr>apiKey = ''default-key'', timeout = Fin 3000\<rparr>,
                  2 := \<lparr>apiKey = ''injected-key'', timeout = Fin 5000\<rparr>),
        next_ref = 3\<rparr>)))))
           (fst (getConfig \<lparr>config_ref = 1\<rparr>
                (write_apiKey 3 ''changed'' (snd (getConfig \<lparr>config_ref = 1\<rparr> \<lparr>cells = (\<lambda>_. \<lparr>apiKey = [], timeout = Fin 0\<rparr>)
                 (1 := \<lparr>apiKey = ''default-key'', timeout = Fin 3000\<rparr>,
                  2 := \<lparr>apiKey = ''injected-key'', timeout = Fin 5000\<rparr>),
        next_ref = 3\<rparr>)))))
       = \<lparr>apiKey = ''default-key'', timeout = Fin 3000\<rparr>
   \<and> cells (snd (getConfig_injected \<lparr>injected_config_ref = 2\<rparr>
                (write_apiKey 3 ''changed''
                   (snd (getConfig_injected \<lparr>injected_config_ref = 2\<rparr> \<lparr>cells = (\<lambda>_. \<lparr>apiKey = [], timeout = Fin 0\<rparr>)
                 (1 := \<lparr>apiKey = ''default-key'', timeout = Fin 3000\<rparr>,
                  2 := \<lparr>apiKey = ''injected-key'', timeout = Fin 5000\<rparr>),
        next_ref = 3\<rparr>)))))
           (fst (getConfig_injected \<lparr>injected_config_ref = 2\<rparr>
                (write_apiKey 3 ''changed''
                   (snd (getConfig_injected \<lparr>injected_config_ref = 2\<rparr> \<lparr>cells = (\<lambda>_. \<lparr>apiKey = [], timeout = Fin 0\<rparr>)
                 (1 := \<lparr>apiKey = ''default-key'', timeout = Fin 3000\<rparr>,
                  2 := \<lparr>apiKey = ''injected-key'', timeout = Fin 5000\<rparr>),
        next_ref = 3\<rparr>)))))
       = \<lparr>apiKey = ''injected-key'', timeout = Fin 5000\<rparr>
   \<and> cells (setConfig \<lparr>config_ref = 1\<rparr> ''new-api-key'' (Fin 10000) \<lparr>cells = (\<lambda>_. \<lparr>apiKey = [], timeout = Fin 0\<rparr>)
                 (1 := \<lparr>apiKey = ''default-key'', timeout = Fin 3000\<rparr>,
                  2 := \<lparr>apiKey = ''injected-key'', timeout = Fin 5000\<rparr>),
        next_ref = 3\<rparr>) 1
       = \<lparr>apiKey = ''new-api-key'', timeout = Fin 10000\<rparr>
   \<and> fst (getInstance \<lparr>objs = empty_store, instance_slot = None\<rparr>) = \<lparr>config_ref = 1\<rparr>"
  using getConfig_returns_copy
    [where m = "\<lparr>config_ref = 1\<rparr>" and mi = "\<lparr>injected_config_ref = 2\<rparr>"
       and h = "\<lparr>cells = (\<lambda>_. \<lparr>apiKey = [], timeout = Fin 0\<rparr>)
                 (1 := \<lparr>apiKey = ''default-key'', timeout = Fin 3000\<rparr>,
                  2 := \<lparr>apiKey = ''injected-key'', timeout = Fin 5000\<rparr>),
        next_ref = 3\<rparr>"
       and f = "\<lambda>c. c\<lparr>apiKey := ''changed''\<rparr>" and a = 0
       and k = "''new-api-key''" and t = "Fin 10000"
       and s = "\<lparr>objs = empty_store, instance_slot = None\<rparr>"]
  by (simp add: getConfig_def getConfig_injected_def alloc_def write_apiKey_def
        getInstance_def ConfigManager_ctor_def empty_store_def)

end
